theory Spec2Isabelle
  imports Main
begin

section \<open>Go library values used by \<^verbatim>\<open>api/blob.go\<close>\<close>

text \<open>
  A Go \<^verbatim>\<open>string\<close> and a Go \<^verbatim>\<open>[]byte\<close> are both byte sequences; a \<^typ>\<open>char\<close> is one
  byte, so both are \<^typ>\<open>string\<close> here and the conversion \<^verbatim>\<open>string(key)\<close> is the identity.
\<close>

type_synonym bytes = string

subsection \<open>Errors and their text\<close>

text \<open>
  The \<^verbatim>\<open>error\<close> values the file handles: the ones built by \<^verbatim>\<open>fmt.Errorf\<close> and the ones
  the signer returns are known by their text only; \<^verbatim>\<open>base64.CorruptInputError\<close> carries
  the offending offset.
\<close>

datatype go_error = errorString string | CorruptInputError nat

function FormatInt :: "nat \<Rightarrow> string" where
  "FormatInt n =
     (if n < 10 then [char_of (48 + n)]
      else FormatInt (n div 10) @ [char_of (48 + n mod 10)])"
  by pat_completeness auto
termination
  by (relation "measure id") auto

declare FormatInt.simps [simp del]

fun Error :: "go_error \<Rightarrow> string" where
  "Error (errorString s) = s"
| "Error (CorruptInputError off) = ''illegal base64 data at input byte '' @ FormatInt off"

text \<open>The verb \<^verbatim>\<open>%v\<close> applied to a variable of type \<^verbatim>\<open>error\<close>; the nil error prints as \<^verbatim>\<open><nil>\<close>.\<close>

fun fmt_v :: "go_error option \<Rightarrow> string" where
  "fmt_v None = ''<nil>''"
| "fmt_v (Some e) = Error e"

subsection \<open>\<^verbatim>\<open>base64.StdEncoding\<close>\<close>

definition encodeStd :: string where
  "encodeStd = ''ABCDEFGHIJKLMNOPQRSTUVWXYZabcdefghijklmnopqrstuvwxyz0123456789+/''"

fun indexByte :: "string \<Rightarrow> char \<Rightarrow> nat option" where
  "indexByte [] c = None"
| "indexByte (x # xs) c = (if x = c then Some 0 else map_option Suc (indexByte xs c))"

text \<open>\<^verbatim>\<open>enc.decodeMap\<close>: the 6-bit value of an alphabet character, \<open>None\<close> for the entry \<^verbatim>\<open>0xff\<close>.\<close>

definition decodeMap :: "char \<Rightarrow> nat option" where
  "decodeMap c = indexByte encodeStd c"

definition encode6 :: "nat \<Rightarrow> char" where
  "encode6 v = encodeStd ! (v mod 64)"

text \<open>
  \<^verbatim>\<open>EncodeToString\<close>: three bytes give four characters; a rest of two or one byte is
  padded with \<^verbatim>\<open>=\<close>. The shifts \<^verbatim>\<open>val>>18\<close>, \<^verbatim>\<open>val>>12\<close>, \<^verbatim>\<open>val>>6\<close> are divisions and the mask
  \<^verbatim>\<open>&0x3F\<close> is \<open>mod 64\<close>; \<open>val\<close> stays below \<open>2 ^ 24\<close>.
\<close>

fun EncodeToString :: "bytes \<Rightarrow> string" where
  "EncodeToString (a # b # c # rest) =
     (let val = of_char a * 65536 + of_char b * 256 + of_char c
      in [encode6 (val div 262144), encode6 (val div 4096), encode6 (val div 64), encode6 val]
           @ EncodeToString rest)"
| "EncodeToString [a, b] =
     (let val = of_char a * 65536 + of_char b * 256
      in [encode6 (val div 262144), encode6 (val div 4096), encode6 (val div 64), CHR ''=''])"
| "EncodeToString [a] =
     (let val = of_char a * 65536
      in [encode6 (val div 262144), encode6 (val div 4096), CHR ''='', CHR ''=''])"
| "EncodeToString [] = []"

definition isNewline :: "char \<Rightarrow> bool" where
  "isNewline c = (c = CHR 0x0A \<or> c = CHR 0x0D)"

text \<open>
  The end of \<^verbatim>\<open>decodeQuantum\<close>: \<open>dbuf\<close> holds the \<open>dlen\<close> 6-bit values read (2, 3 or 4);
  they give \<open>dlen - 1\<close> bytes. \<^verbatim>\<open>StdEncoding\<close> is not strict: the unused low bits are not checked.
\<close>

definition quantumBytes :: "nat list \<Rightarrow> bytes" where
  "quantumBytes dbuf =
     (let d = dbuf @ replicate (4 - length dbuf) 0;
          val = d ! 0 * 262144 + d ! 1 * 4096 + d ! 2 * 64 + d ! 3
      in take (length dbuf - 1) [char_of (val div 65536), char_of (val div 256), char_of val])"

text \<open>After the padding: newlines are skipped, anything else is trailing garbage at \<open>si\<close>.\<close>

fun trailing :: "string \<Rightarrow> nat \<Rightarrow> nat option" where
  "trailing [] si = None"
| "trailing (c # cs) si = (if isNewline c then trailing cs (Suc si) else Some si)"

text \<open>
  After a first \<^verbatim>\<open>=\<close> in third position a second one is expected, newlines skipped:
  \<open>Inl\<close> the offset reported, \<open>Inr\<close> the input left and its index.
\<close>

fun secondPad :: "string \<Rightarrow> nat \<Rightarrow> nat + (string \<times> nat)" where
  "secondPad [] si = Inl si"
| "secondPad (c # cs) si =
     (if isNewline c then secondPad cs (Suc si)
      else if c \<noteq> CHR ''='' then Inl (si - 1)
      else Inr (cs, Suc si))"

text \<open>
  \<^verbatim>\<open>Decode\<close> as repeated \<^verbatim>\<open>decodeQuantum\<close>: \<open>si\<close> is the index of the next input byte,
  \<open>dbuf\<close> the values of the current quantum (\<open>j = length dbuf\<close>), \<open>out\<close> the bytes decoded.
  \<open>Inl off\<close> is \<^verbatim>\<open>CorruptInputError(off)\<close>.
\<close>

fun decode :: "string \<Rightarrow> nat \<Rightarrow> nat list \<Rightarrow> bytes \<Rightarrow> nat + bytes" where
  "decode [] si dbuf out = (if dbuf = [] then Inr out else Inl (si - length dbuf))"
| "decode (c # cs) si dbuf out =
     (case decodeMap c of
        Some v \<Rightarrow>
          (if length dbuf = 3 then decode cs (Suc si) [] (out @ quantumBytes (dbuf @ [v]))
           else decode cs (Suc si) (dbuf @ [v]) out)
      | None \<Rightarrow>
          (if isNewline c then decode cs (Suc si) dbuf out
           else if c \<noteq> CHR ''='' then Inl si
           else if length dbuf < 2 then Inl si
           else (case (if length dbuf = 2 then secondPad cs (Suc si) else Inr (cs, Suc si)) of
                   Inl off \<Rightarrow> Inl off
                 | Inr (rest, si') \<Rightarrow>
                     (case trailing rest si' of
                        Some off \<Rightarrow> Inl off
                      | None \<Rightarrow> Inr (out @ quantumBytes dbuf)))))"

definition DecodeString :: "string \<Rightarrow> go_error + bytes" where
  "DecodeString s =
     (case decode s 0 [] [] of Inl off \<Rightarrow> Inl (CorruptInputError off) | Inr b \<Rightarrow> Inr b)"

subsection \<open>\<^verbatim>\<open>crypto.Hash\<close>, \<^verbatim>\<open>net/http\<close> and gRPC status values\<close>

datatype crypto_Hash = SHA224 | SHA256 | SHA384 | SHA512

definition http_StatusOK :: nat where "http_StatusOK = 200"
definition http_StatusCreated :: nat where "http_StatusCreated = 201"
definition http_StatusBadRequest :: nat where "http_StatusBadRequest = 400"
definition http_StatusInternalServerError :: nat where "http_StatusInternalServerError = 500"

datatype codes_Code = InvalidArgument | Internal

text \<open>The error built by \<^verbatim>\<open>status.Error\<close> and \<^verbatim>\<open>status.Errorf\<close>: a code and a message.\<close>

datatype grpc_status = status_Error codes_Code string

section \<open>\<^verbatim>\<open>getSignerOpts\<close>\<close>

definition getSignerOpts :: "string \<Rightarrow> crypto_Hash" where
  "getSignerOpts hashAlgo =
     (if hashAlgo = ''SHA224'' then SHA224
      else if hashAlgo = ''SHA256'' then SHA256
      else if hashAlgo = ''SHA384'' then SHA384
      else if hashAlgo = ''SHA512'' then SHA512
      else SHA512)"

section \<open>The data of package \<^verbatim>\<open>api\<close>\<close>

subsection \<open>Messages of package \<^verbatim>\<open>proto\<close>\<close>

text \<open>
  The generated message types are not part of the file; their fields are the ones the file
  reads and writes. A \<^verbatim>\<open>*proto.KeyMeta\<close> or \<^verbatim>\<open>*proto.BlobSigningRequest\<close> may be nil: an
  \<open>option\<close>. \<^verbatim>\<open>HashAlgorithm\<close> is an enum value (an \<^verbatim>\<open>int32\<close>) whose \<^verbatim>\<open>String\<close> method is a
  table of the generated code, taken as the parameter \<open>HashAlgo_String\<close> below.
\<close>

type_synonym proto_HashAlgo = int

record proto_KeyMeta =
  Identifier :: string

record proto_KeyMetas =
  Keys :: "proto_KeyMeta list"

record proto_PublicKey =
  Key :: string

record proto_Signature =
  Signature :: string

record proto_BlobSigningRequest =
  KeyMeta :: "proto_KeyMeta option"
  Digest :: string
  HashAlgorithm :: proto_HashAlgo

subsection \<open>Go maps\<close>

text \<open>
  \<^verbatim>\<open>s.KeyUsages\<close> is indexed twice, negated with \<^verbatim>\<open>!\<close> and ranged over with a string key: a
  \<^verbatim>\<open>map[string]map[string]bool\<close>. The inner map is also iterated, so it is the list of its
  entries in the order the \<^verbatim>\<open>range\<close> of this call visits them (the keys of a Go map are
  distinct, and Go fixes no order). Indexing a missing key, or a nil map, gives the zero value.
\<close>

type_synonym key_set = "(string \<times> bool) list"

definition mapIndex :: "key_set \<Rightarrow> string \<Rightarrow> bool" where
  "mapIndex m k = (case map_of m k of None \<Rightarrow> False | Some b \<Rightarrow> b)"

definition mapRange :: "key_set \<Rightarrow> string list" where
  "mapRange m = map fst m"

definition usagesIndex :: "(string \<rightharpoonup> key_set) \<Rightarrow> string \<Rightarrow> key_set" where
  "usagesIndex u endpoint = (case u endpoint of None \<Rightarrow> [] | Some m \<Rightarrow> m)"

subsection \<open>The signing service and what surrounds a call\<close>

datatype panic_value = nil_dereference | signer_panic string

text \<open>
  A method of the embedded signer returns a value, returns an error, or panics.
\<close>

datatype 'a signer_result = Returns 'a | Fails go_error | Panics panic_value

record SigningService =
  KeyUsages :: "string \<rightharpoonup> key_set"
  Sign :: "bytes \<Rightarrow> crypto_Hash \<Rightarrow> string \<Rightarrow> bytes signer_result"
  GetBlobSigningPublicKey :: "string \<Rightarrow> bytes signer_result"

text \<open>
  What the file takes from outside: the constant \<^verbatim>\<open>config.BlobEndpoint\<close>, the rendering of
  the verb \<^verbatim>\<open>%q\<close> (\<^verbatim>\<open>strconv.Quote\<close>), the name table of \<^verbatim>\<open>proto.HashAlgo\<close>, and the two
  readings of the clock: \<^verbatim>\<open>time.Now()\<close> on entry, and the reading when the deferred log
  statement runs.
\<close>

record env =
  BlobEndpoint :: string
  fmt_q :: "string \<Rightarrow> string"
  HashAlgo_String :: "proto_HashAlgo \<Rightarrow> string"
  time_Now :: int
  time_Later :: int

text \<open>The expression \<^verbatim>\<open>s.KeyUsages[config.BlobEndpoint][id]\<close> of the two authorization checks.\<close>

definition keyUsable :: "env \<Rightarrow> SigningService \<Rightarrow> string \<Rightarrow> bool" where
  "keyUsable cfg sv ident = mapIndex (usagesIndex (KeyUsages sv) (BlobEndpoint cfg)) ident"

text \<open>
  Modelled from the spec: \<^verbatim>\<open>timeElapsedSince\<close> is declared elsewhere in package \<^verbatim>\<open>api\<close>; the
  spec says the record holds the elapsed duration of the call.
\<close>

definition timeElapsedSince :: "env \<Rightarrow> int \<Rightarrow> int" where
  "timeElapsedSince cfg start = time_Later cfg - start"

text \<open>
  One line of \<^verbatim>\<open>log.Printf\<close> with the format of the file, as the values of its verbs:
  \<^verbatim>\<open>m=%s\<close>, \<^verbatim>\<open>digest=%q\<close> and \<^verbatim>\<open>hash=%q\<close> (\<^verbatim>\<open>PostSignBlob\<close> only), \<^verbatim>\<open>st=%d\<close>, \<^verbatim>\<open>et=%d\<close> and
  \<^verbatim>\<open>err="%v"\<close>, the latter as the text \<^verbatim>\<open>%v\<close> prints.
\<close>

record log_record =
  log_m :: string
  log_digest :: "string option"
  log_hash :: "string option"
  log_st :: nat
  log_et :: int
  log_err :: string

text \<open>What a call does that can be seen from outside, in order.\<close>

datatype event =
    call_Sign bytes crypto_Hash string
  | call_GetBlobSigningPublicKey string
  | log_Printf log_record
  | log_recovered string panic_value

fun isSignerCall :: "event \<Rightarrow> bool" where
  "isSignerCall (call_Sign d opts ident) = True"
| "isSignerCall (call_GetBlobSigningPublicKey ident) = True"
| "isSignerCall (log_Printf r) = False"
| "isSignerCall (log_recovered mth v) = False"

text \<open>
  The local variables the deferred log statement reads, and how the body of a method ends:
  with a \<^verbatim>\<open>return\<close> of a response pointer and an error, or panicking.
\<close>

record locals =
  statusCode :: nat
  err :: "go_error option"

datatype 'r ctl = Return "'r option" "grpc_status option" | Panicking panic_value

type_synonym 'r body = "locals \<times> event list \<times> 'r ctl"

text \<open>How a call ends for its caller: it returns the two results, or the panic goes on.\<close>

datatype 'r outcome = Returned "'r option" "grpc_status option" | Panicked panic_value

text \<open>
  The arguments of the deferred \<^verbatim>\<open>log.Printf\<close>: the method name, for \<^verbatim>\<open>PostSignBlob\<close> the
  digest and the name of the hash algorithm of the request, then \<^verbatim>\<open>statusCode\<close>,
  \<^verbatim>\<open>timeElapsedSince(start)\<close> and \<^verbatim>\<open>err\<close> as they are when the statement runs.
\<close>

definition logRecord ::
  "env \<Rightarrow> string \<Rightarrow> string option \<Rightarrow> string option \<Rightarrow> locals \<Rightarrow> log_record" where
  "logRecord cfg methodName digest hash l =
     \<lparr>log_m = methodName, log_digest = digest, log_hash = hash, log_st = statusCode l,
      log_et = timeElapsedSince cfg (time_Now cfg), log_err = fmt_v (err l)\<rparr>"

section \<open>The deferred calls\<close>

text \<open>
  Modelled from the spec: \<^verbatim>\<open>recoverIfPanicked\<close> is declared elsewhere in package \<^verbatim>\<open>api\<close>. The
  spec says that an unexpected fault of the wrapped call is contained at the call boundary
  and its detail logged. Deferred as \<^verbatim>\<open>defer recoverIfPanicked(methodName)\<close> it gets the method
  name only: it stops the panic in progress, if any, and logs it. The result is the panic
  still in progress afterwards (none) and the lines logged.
\<close>

definition recoverIfPanicked :: "string \<Rightarrow> panic_value option \<Rightarrow> panic_value option \<times> event list" where
  "recoverIfPanicked methodName p =
     (case p of None \<Rightarrow> (None, []) | Some v \<Rightarrow> (None, [log_recovered methodName v]))"

text \<open>
  The two deferred calls run last in, first out, when the body has returned or panicked:
  first \<^verbatim>\<open>recoverIfPanicked\<close>, then the log statement. The results of the methods have no
  names, so a method whose panic was recovered returns the zero values \<^verbatim>\<open>(nil, nil)\<close>. The
  arguments of \<^verbatim>\<open>log.Printf\<close> are evaluated inside the deferred function: \<open>logArgs\<close> gives the
  record to print, or the panic their evaluation raises; no deferred call is left to
  recover that one.
\<close>

definition runDeferred ::
  "string \<Rightarrow> (locals \<Rightarrow> panic_value + log_record) \<Rightarrow> 'r body \<Rightarrow> 'r outcome \<times> event list" where
  "runDeferred methodName logArgs b =
     (case b of (l, tr, c) \<Rightarrow>
        (case recoverIfPanicked methodName (case c of Return r e \<Rightarrow> None | Panicking v \<Rightarrow> Some v) of
           (p, lines) \<Rightarrow>
             (case logArgs l of
                Inl v \<Rightarrow> (Panicked v, tr @ lines)
              | Inr record \<Rightarrow>
                  (case p of
                     Some v \<Rightarrow> (Panicked v, tr @ lines @ [log_Printf record])
                   | None \<Rightarrow>
                       (case c of
                          Return r e \<Rightarrow> (Returned r e, tr @ lines @ [log_Printf record])
                        | Panicking v \<Rightarrow> (Returned None None, tr @ lines @ [log_Printf record]))))))"

section \<open>\<^verbatim>\<open>GetBlobAvailableSigningKeys\<close>\<close>

text \<open>The loop \<^verbatim>\<open>for id := range ... { keys = append(keys, &proto.KeyMeta{Identifier: id}) }\<close>.\<close>

fun appendKeys :: "proto_KeyMeta list \<Rightarrow> string list \<Rightarrow> proto_KeyMeta list" where
  "appendKeys keys [] = keys"
| "appendKeys keys (ident # rest) = appendKeys (keys @ [\<lparr>Identifier = ident\<rparr>]) rest"

definition GetBlobAvailableSigningKeys_body ::
  "env \<Rightarrow> SigningService option \<Rightarrow> proto_KeyMetas body" where
  "GetBlobAvailableSigningKeys_body cfg s =
     (case s of
        None \<Rightarrow> (\<lparr>statusCode = http_StatusOK, err = None\<rparr>, [], Panicking nil_dereference)
      | Some sv \<Rightarrow>
          (\<lparr>statusCode = http_StatusOK, err = None\<rparr>, [],
           Return (Some \<lparr>Keys = appendKeys []
                     (mapRange (usagesIndex (KeyUsages sv) (BlobEndpoint cfg)))\<rparr>) None))"

definition GetBlobAvailableSigningKeys ::
  "env \<Rightarrow> SigningService option \<Rightarrow> proto_KeyMetas outcome \<times> event list" where
  "GetBlobAvailableSigningKeys cfg s =
     runDeferred ''GetBlobAvailableSigningKeys''
       (\<lambda>l. Inr (logRecord cfg ''GetBlobAvailableSigningKeys'' None None l))
       (GetBlobAvailableSigningKeys_body cfg s)"

section \<open>\<^verbatim>\<open>GetBlobSigningKey\<close>\<close>

text \<open>The two error texts built with \<^verbatim>\<open>fmt.Errorf\<close> and the two errors returned.\<close>

definition badRequest :: "go_error \<Rightarrow> grpc_status" where
  "badRequest e = status_Error InvalidArgument (''Bad request: '' @ Error e)"

definition internalServerError :: grpc_status where
  "internalServerError = status_Error Internal ''Internal server error''"

definition cannotUseKey :: "env \<Rightarrow> string \<Rightarrow> go_error" where
  "cannotUseKey cfg ident =
     errorString (''cannot use key '' @ fmt_q cfg ident @ '' for '' @ fmt_q cfg (BlobEndpoint cfg))"

definition GetBlobSigningKey_body ::
  "env \<Rightarrow> SigningService option \<Rightarrow> proto_KeyMeta option \<Rightarrow> proto_PublicKey body" where
  "GetBlobSigningKey_body cfg s keyMeta =
     (case keyMeta of
        None \<Rightarrow>
          (let e = errorString (''keyMeta is empty for '' @ fmt_q cfg (BlobEndpoint cfg))
           in (\<lparr>statusCode = http_StatusBadRequest, err = Some e\<rparr>, [],
               Return None (Some (badRequest e))))
      | Some km \<Rightarrow>
          (case s of
             None \<Rightarrow> (\<lparr>statusCode = http_StatusOK, err = None\<rparr>, [], Panicking nil_dereference)
           | Some sv \<Rightarrow>
               if \<not> keyUsable cfg sv (Identifier km)
               then (let e = cannotUseKey cfg (Identifier km)
                     in (\<lparr>statusCode = http_StatusBadRequest, err = Some e\<rparr>, [],
                         Return None (Some (badRequest e))))
               else (case GetBlobSigningPublicKey sv (Identifier km) of
                       Panics v \<Rightarrow>
                         (\<lparr>statusCode = http_StatusOK, err = None\<rparr>,
                          [call_GetBlobSigningPublicKey (Identifier km)], Panicking v)
                     | Fails e \<Rightarrow>
                         (\<lparr>statusCode = http_StatusInternalServerError, err = Some e\<rparr>,
                          [call_GetBlobSigningPublicKey (Identifier km)],
                          Return None (Some internalServerError))
                     | Returns key \<Rightarrow>
                         (\<lparr>statusCode = http_StatusOK, err = None\<rparr>,
                          [call_GetBlobSigningPublicKey (Identifier km)],
                          Return (Some \<lparr>Key = key\<rparr>) None))))"

definition GetBlobSigningKey ::
  "env \<Rightarrow> SigningService option \<Rightarrow> proto_KeyMeta option \<Rightarrow> proto_PublicKey outcome \<times> event list" where
  "GetBlobSigningKey cfg s keyMeta =
     runDeferred ''GetBlobSigningKey''
       (\<lambda>l. Inr (logRecord cfg ''GetBlobSigningKey'' None None l))
       (GetBlobSigningKey_body cfg s keyMeta)"

section \<open>\<^verbatim>\<open>PostSignBlob\<close>\<close>

text \<open>
  \<^verbatim>\<open>request.KeyMeta\<close> is a field read and panics on a nil request; so does
  \<^verbatim>\<open>request.HashAlgorithm\<close> in the deferred log statement, whereas the generated getter
  \<^verbatim>\<open>request.GetDigest()\<close> before it returns the empty string for nil.
\<close>

definition PostSignBlob_body ::
  "env \<Rightarrow> SigningService option \<Rightarrow> proto_BlobSigningRequest option \<Rightarrow> proto_Signature body" where
  "PostSignBlob_body cfg s request =
     (case request of
        None \<Rightarrow> (\<lparr>statusCode = http_StatusCreated, err = None\<rparr>, [], Panicking nil_dereference)
      | Some rq \<Rightarrow>
     (case KeyMeta rq of
        None \<Rightarrow>
          (let e = errorString (''request.keyMeta is empty for '' @ fmt_q cfg (BlobEndpoint cfg))
           in (\<lparr>statusCode = http_StatusBadRequest, err = Some e\<rparr>, [],
               Return None (Some (badRequest e))))
      | Some km \<Rightarrow>
     (case s of
        None \<Rightarrow> (\<lparr>statusCode = http_StatusCreated, err = None\<rparr>, [], Panicking nil_dereference)
      | Some sv \<Rightarrow>
          if \<not> keyUsable cfg sv (Identifier km)
          then (let e = cannotUseKey cfg (Identifier km)
                in (\<lparr>statusCode = http_StatusBadRequest, err = Some e\<rparr>, [],
                    Return None (Some (badRequest e))))
          else (case DecodeString (Digest rq) of
                  Inl e \<Rightarrow>
                    (\<lparr>statusCode = http_StatusBadRequest, err = Some e\<rparr>, [],
                     Return None (Some (badRequest e)))
                | Inr digest \<Rightarrow>
                    (let signerOpts = getSignerOpts (HashAlgo_String cfg (HashAlgorithm rq));
                         ev = call_Sign digest signerOpts (Identifier km)
                     in case Sign sv digest signerOpts (Identifier km) of
                          Panics v \<Rightarrow>
                            (\<lparr>statusCode = http_StatusCreated, err = None\<rparr>, [ev], Panicking v)
                        | Fails e \<Rightarrow>
                            (\<lparr>statusCode = http_StatusInternalServerError, err = Some e\<rparr>, [ev],
                             Return None (Some internalServerError))
                        | Returns signature \<Rightarrow>
                            (\<lparr>statusCode = http_StatusCreated, err = None\<rparr>, [ev],
                             Return (Some \<lparr>Signature = EncodeToString signature\<rparr>) None))))))"

definition PostSignBlob ::
  "env \<Rightarrow> SigningService option \<Rightarrow> proto_BlobSigningRequest option
     \<Rightarrow> proto_Signature outcome \<times> event list" where
  "PostSignBlob cfg s request =
     runDeferred ''PostSignBlob''
       (\<lambda>l. case request of
               None \<Rightarrow> Inl nil_dereference
             | Some rq \<Rightarrow>
                 Inr (logRecord cfg ''PostSignBlob'' (Some (Digest rq))
                        (Some (HashAlgo_String cfg (HashAlgorithm rq))) l))
       (PostSignBlob_body cfg s request)"

section \<open>Reading a trace\<close>

fun logRecords :: "event list \<Rightarrow> log_record list" where
  "logRecords [] = []"
| "logRecords (log_Printf r # es) = r # logRecords es"
| "logRecords (call_Sign d opts ident # es) = logRecords es"
| "logRecords (call_GetBlobSigningPublicKey ident # es) = logRecords es"
| "logRecords (log_recovered mth v # es) = logRecords es"

definition signerCalls :: "event list \<Rightarrow> event list" where
  "signerCalls tr = filter isSignerCall tr"

text \<open>
  The status and the error text a log record shows, against what the caller got: the
  success status and the text of the nil error when no error is returned, \<^verbatim>\<open>400\<close> and the
  text behind \<^verbatim>\<open>Bad request: \<close> for \<^verbatim>\<open>InvalidArgument\<close>, \<^verbatim>\<open>500\<close> for \<^verbatim>\<open>Internal\<close>.
\<close>

fun recordShows :: "nat \<Rightarrow> 'r outcome \<Rightarrow> log_record \<Rightarrow> bool" where
  "recordShows ok (Returned r None) record = (log_st record = ok \<and> log_err record = ''<nil>'')"
| "recordShows ok (Returned r (Some (status_Error InvalidArgument msg))) record =
     (log_st record = http_StatusBadRequest \<and> msg = ''Bad request: '' @ log_err record)"
| "recordShows ok (Returned r (Some (status_Error Internal msg))) record =
     (log_st record = http_StatusInternalServerError)"
| "recordShows ok (Panicked v) record = False"

section \<open>The scenarios of the specification\<close>

text \<open>
  The setting of the scenarios: the endpoint \<^verbatim>\<open>blob\<close> with the single key \<^verbatim>\<open>key1\<close>. On the
  identifiers used here (printable ASCII, no quote, no backslash) \<^verbatim>\<open>%q\<close> puts the text in
  double quotes. The name table is an example of a generated one.
\<close>

definition quoteASCII :: "string \<Rightarrow> string" where
  "quoteASCII s = CHR 0x22 # s @ [CHR 0x22]"

definition exampleNames :: "proto_HashAlgo \<Rightarrow> string" where
  "exampleNames h =
     (if h = 1 then ''SHA224'' else if h = 2 then ''SHA256'' else if h = 3 then ''SHA384''
      else if h = 4 then ''SHA512'' else ''Unspecified'')"

definition scenarioEnv :: env where
  "scenarioEnv = \<lparr>BlobEndpoint = ''blob'', fmt_q = quoteASCII, HashAlgo_String = exampleNames,
                   time_Now = 1000, time_Later = 1007\<rparr>"

definition scenarioService :: "bytes signer_result \<Rightarrow> SigningService" where
  "scenarioService answer =
     \<lparr>KeyUsages = [''blob'' \<mapsto> [(''key1'', True)]],
      Sign = (\<lambda>digest opts ident. answer),
      GetBlobSigningPublicKey = (\<lambda>ident. answer)\<rparr>"

definition scenarioRequest :: "string \<Rightarrow> proto_BlobSigningRequest" where
  "scenarioRequest ident = \<lparr>KeyMeta = Some \<lparr>Identifier = ident\<rparr>, Digest = ''aGVsbG8='', HashAlgorithm = 2\<rparr>"

section \<open>Auxiliary facts\<close>

lemma char_of_nat_bits:
  "char_of (n::nat) = Char (odd n) (odd (n div 2)) (odd (n div 4)) (odd (n div 8))
      (odd (n div 16)) (odd (n div 32)) (odd (n div 64)) (odd (n div 128))"
  by (simp add: char_of_def bit_iff_odd)

lemmas base64_eval =
  DecodeString_def decodeMap_def encodeStd_def quantumBytes_def isNewline_def encode6_def
  char_of_nat_bits

lemmas scenario_eval =
  scenarioEnv_def scenarioService_def scenarioRequest_def quoteASCII_def exampleNames_def
  keyUsable_def mapIndex_def usagesIndex_def

lemmas http_eval =
  http_StatusOK_def http_StatusCreated_def http_StatusBadRequest_def
  http_StatusInternalServerError_def

lemmas call_eval =
  runDeferred_def recoverIfPanicked_def logRecord_def timeElapsedSince_def badRequest_def
  cannotUseKey_def internalServerError_def signerCalls_def

lemmas body_eval =
  GetBlobAvailableSigningKeys_body_def GetBlobSigningKey_body_def PostSignBlob_body_def
  Let_def http_eval

lemma decode_hello: "DecodeString ''aGVsbG8='' = Inr ''hello''"
  by (simp add: base64_eval)

lemma encode_aabb: "EncodeToString [CHR 0xAA, CHR 0xBB] = ''qrs=''"
  by (simp add: base64_eval)

lemma decode_garbage: "DecodeString ''not base64!'' = Inl (CorruptInputError 3)"
  by (simp add: base64_eval)

lemma appendKeys_map: "appendKeys keys ids = keys @ map (\<lambda>i. \<lparr>Identifier = i\<rparr>) ids"
  by (induction ids arbitrary: keys) simp_all

lemma scenario_usable:
  "keyUsable scenarioEnv (scenarioService answer) ident = (ident = ''key1'')"
  by (simp add: scenario_eval)

section \<open>The claims\<close>

text \<open>
  C3. \<^verbatim>\<open>getSignerOpts\<close> gives each of the four names its own descriptor, and \<^verbatim>\<open>SHA512\<close> to
  every other text, the empty one included; it has a value among the four for every text.
\<close>

theorem getSignerOpts_total:
  "getSignerOpts ''SHA224'' = SHA224 \<and> getSignerOpts ''SHA256'' = SHA256 \<and>
   getSignerOpts ''SHA384'' = SHA384 \<and> getSignerOpts ''SHA512'' = SHA512 \<and>
   getSignerOpts '''' = SHA512 \<and>
   (\<forall>h. h \<notin> {''SHA224'', ''SHA256'', ''SHA384'', ''SHA512''} \<longrightarrow> getSignerOpts h = SHA512) \<and>
   (\<forall>h. getSignerOpts h \<in> {SHA224, SHA256, SHA384, SHA512})"
  by (simp add: getSignerOpts_def)

theorem getSignerOpts_total_witness:
  "''MD5'' \<notin> {''SHA224'', ''SHA256'', ''SHA384'', ''SHA512''} \<and> getSignerOpts ''MD5'' = SHA512"
proof -
  have "\<forall>h. h \<notin> {''SHA224'', ''SHA256'', ''SHA384'', ''SHA512''} \<longrightarrow> getSignerOpts h = SHA512"
    using getSignerOpts_total by blast
  then show ?thesis by simp
qed

text \<open>
  C1. An identifier for which \<^verbatim>\<open>s.KeyUsages[config.BlobEndpoint][id]\<close> is false (absent from
  the table, or stored with \<^verbatim>\<open>false\<close>) is refused by \<^verbatim>\<open>GetBlobSigningKey\<close> and by
  \<^verbatim>\<open>PostSignBlob\<close> with \<^verbatim>\<open>InvalidArgument\<close> and the message
  \<^verbatim>\<open>Bad request: cannot use key <id> for <endpoint>\<close>, identifier and endpoint printed with
  \<^verbatim>\<open>%q\<close>, and no method of the signer is called.
\<close>

theorem unusable_key_refused:
  assumes "\<not> keyUsable cfg sv (Identifier km)" and "KeyMeta rq = Some km"
  shows "fst (GetBlobSigningKey cfg (Some sv) (Some km)) =
           Returned None (Some (status_Error InvalidArgument
             (''Bad request: cannot use key '' @ fmt_q cfg (Identifier km) @ '' for ''
                @ fmt_q cfg (BlobEndpoint cfg)))) \<and>
         signerCalls (snd (GetBlobSigningKey cfg (Some sv) (Some km))) = [] \<and>
         fst (PostSignBlob cfg (Some sv) (Some rq)) =
           Returned None (Some (status_Error InvalidArgument
             (''Bad request: cannot use key '' @ fmt_q cfg (Identifier km) @ '' for ''
                @ fmt_q cfg (BlobEndpoint cfg)))) \<and>
         signerCalls (snd (PostSignBlob cfg (Some sv) (Some rq))) = []"
proof -
  have get: "GetBlobSigningKey_body cfg (Some sv) (Some km) =
      (\<lparr>statusCode = 400, err = Some (cannotUseKey cfg (Identifier km))\<rparr>, [],
       Return None (Some (badRequest (cannotUseKey cfg (Identifier km)))))"
    using assms(1) by (simp add: body_eval)
  have post: "PostSignBlob_body cfg (Some sv) (Some rq) =
      (\<lparr>statusCode = 400, err = Some (cannotUseKey cfg (Identifier km))\<rparr>, [],
       Return None (Some (badRequest (cannotUseKey cfg (Identifier km)))))"
    using assms by (simp add: body_eval)
  show ?thesis
    by (simp add: GetBlobSigningKey_def PostSignBlob_def get post call_eval)
qed

theorem unusable_key_refused_witness:
  "\<not> keyUsable scenarioEnv (scenarioService (Returns ''PUB'')) ''key2'' \<and>
   fst (GetBlobSigningKey scenarioEnv (Some (scenarioService (Returns ''PUB'')))
          (Some \<lparr>Identifier = ''key2''\<rparr>)) =
     Returned None (Some (status_Error InvalidArgument
       (''Bad request: cannot use key '' @ quoteASCII ''key2'' @ '' for '' @ quoteASCII ''blob''))) \<and>
   fst (PostSignBlob scenarioEnv (Some (scenarioService (Returns ''PUB'')))
          (Some (scenarioRequest ''key2''))) =
     Returned None (Some (status_Error InvalidArgument
       (''Bad request: cannot use key '' @ quoteASCII ''key2'' @ '' for '' @ quoteASCII ''blob''))) \<and>
   signerCalls (snd (PostSignBlob scenarioEnv (Some (scenarioService (Returns ''PUB'')))
          (Some (scenarioRequest ''key2'')))) = []"
proof -
  have no: "\<not> keyUsable scenarioEnv (scenarioService (Returns ''PUB''))
               (Identifier \<lparr>Identifier = ''key2''\<rparr>)"
    by (simp add: scenario_usable)
  have km: "KeyMeta (scenarioRequest ''key2'') = Some \<lparr>Identifier = ''key2''\<rparr>"
    by (simp add: scenarioRequest_def)
  show ?thesis
    using unusable_key_refused [OF no km] no
    by (simp add: scenarioEnv_def)
qed

text \<open>
  C5. When the key may be used and \<^verbatim>\<open>base64.StdEncoding.DecodeString\<close> rejects the digest,
  \<^verbatim>\<open>PostSignBlob\<close> returns \<^verbatim>\<open>InvalidArgument\<close> with the text of the decoding error, and no
  method of the signer is called.
\<close>

theorem bad_digest_refused:
  assumes "KeyMeta rq = Some km" and "keyUsable cfg sv (Identifier km)"
      and "DecodeString (Digest rq) = Inl e"
  shows "fst (PostSignBlob cfg (Some sv) (Some rq)) =
           Returned None (Some (status_Error InvalidArgument (''Bad request: '' @ Error e))) \<and>
         signerCalls (snd (PostSignBlob cfg (Some sv) (Some rq))) = []"
proof -
  have "PostSignBlob_body cfg (Some sv) (Some rq) =
      (\<lparr>statusCode = 400, err = Some e\<rparr>, [], Return None (Some (badRequest e)))"
    using assms by (simp add: body_eval)
  then show ?thesis
    by (simp add: PostSignBlob_def call_eval)
qed

theorem bad_digest_refused_witness:
  "DecodeString ''not base64!'' = Inl (CorruptInputError 3) \<and>
   fst (PostSignBlob scenarioEnv (Some (scenarioService (Returns ''SIG'')))
          (Some ((scenarioRequest ''key1'')\<lparr>Digest := ''not base64!''\<rparr>))) =
     Returned None (Some (status_Error InvalidArgument
       ''Bad request: illegal base64 data at input byte 3'')) \<and>
   signerCalls (snd (PostSignBlob scenarioEnv (Some (scenarioService (Returns ''SIG'')))
          (Some ((scenarioRequest ''key1'')\<lparr>Digest := ''not base64!''\<rparr>)))) = []"
proof -
  let ?rq = "(scenarioRequest ''key1'')\<lparr>Digest := ''not base64!''\<rparr>"
  have km: "KeyMeta ?rq = Some \<lparr>Identifier = ''key1''\<rparr>"
    by (simp add: scenarioRequest_def)
  have ok: "keyUsable scenarioEnv (scenarioService (Returns ''SIG''))
              (Identifier \<lparr>Identifier = ''key1''\<rparr>)"
    by (simp add: scenario_usable)
  have bad: "DecodeString (Digest ?rq) = Inl (CorruptInputError 3)"
    by (simp add: decode_garbage)
  show ?thesis
    using bad_digest_refused [OF km ok bad]
    by (simp add: decode_garbage FormatInt.simps char_of_nat_bits)
qed

text \<open>
  C9. When the key may be used and the digest decodes, \<^verbatim>\<open>PostSignBlob\<close> calls \<^verbatim>\<open>Sign\<close> once,
  with the decoded bytes, the descriptor \<^verbatim>\<open>getSignerOpts\<close> gives for the name of the request's
  hash algorithm, and the identifier, and calls nothing else of the signer; when \<^verbatim>\<open>Sign\<close>
  returns bytes, the signature of the response is their standard base64 text. The digest
  \<^verbatim>\<open>aGVsbG8=\<close> decodes to \<^verbatim>\<open>hello\<close> and the bytes \<^verbatim>\<open>AA BB\<close> are encoded as \<^verbatim>\<open>qrs=\<close>.
\<close>

theorem sign_once_and_encode:
  assumes "KeyMeta rq = Some km" and "keyUsable cfg sv (Identifier km)"
      and "DecodeString (Digest rq) = Inr digest"
  shows "signerCalls (snd (PostSignBlob cfg (Some sv) (Some rq))) =
           [call_Sign digest (getSignerOpts (HashAlgo_String cfg (HashAlgorithm rq)))
              (Identifier km)] \<and>
         (\<forall>signature.
            Sign sv digest (getSignerOpts (HashAlgo_String cfg (HashAlgorithm rq)))
              (Identifier km) = Returns signature \<longrightarrow>
            fst (PostSignBlob cfg (Some sv) (Some rq)) =
              Returned (Some \<lparr>Signature = EncodeToString signature\<rparr>) None) \<and>
         DecodeString ''aGVsbG8='' = Inr ''hello'' \<and>
         EncodeToString [CHR 0xAA, CHR 0xBB] = ''qrs=''"
proof -
  let ?opts = "getSignerOpts (HashAlgo_String cfg (HashAlgorithm rq))"
  have body: "PostSignBlob_body cfg (Some sv) (Some rq) =
      (case Sign sv digest ?opts (Identifier km) of
         Panics v \<Rightarrow>
           (\<lparr>statusCode = http_StatusCreated, err = None\<rparr>,
            [call_Sign digest ?opts (Identifier km)], Panicking v)
       | Fails e \<Rightarrow>
           (\<lparr>statusCode = http_StatusInternalServerError, err = Some e\<rparr>,
            [call_Sign digest ?opts (Identifier km)], Return None (Some internalServerError))
       | Returns signature \<Rightarrow>
           (\<lparr>statusCode = http_StatusCreated, err = None\<rparr>,
            [call_Sign digest ?opts (Identifier km)],
            Return (Some \<lparr>Signature = EncodeToString signature\<rparr>) None))"
    using assms by (simp add: PostSignBlob_body_def Let_def)
  have calls: "signerCalls (snd (PostSignBlob cfg (Some sv) (Some rq))) =
      [call_Sign digest ?opts (Identifier km)]"
    by (simp add: PostSignBlob_def body call_eval split: signer_result.split)
  have resp: "fst (PostSignBlob cfg (Some sv) (Some rq)) =
      Returned (Some \<lparr>Signature = EncodeToString signature\<rparr>) None"
    if "Sign sv digest ?opts (Identifier km) = Returns signature" for signature
    using that by (simp add: PostSignBlob_def body call_eval)
  from calls resp decode_hello encode_aabb show ?thesis
    by blast
qed

theorem sign_once_and_encode_witness:
  "fst (PostSignBlob scenarioEnv (Some (scenarioService (Returns [CHR 0xAA, CHR 0xBB])))
          (Some (scenarioRequest ''key1''))) =
     Returned (Some \<lparr>Signature = ''qrs=''\<rparr>) None \<and>
   signerCalls (snd (PostSignBlob scenarioEnv
          (Some (scenarioService (Returns [CHR 0xAA, CHR 0xBB])))
          (Some (scenarioRequest ''key1'')))) = [call_Sign ''hello'' SHA256 ''key1'']"
proof -
  let ?sv = "scenarioService (Returns [CHR 0xAA, CHR 0xBB])"
  have km: "KeyMeta (scenarioRequest ''key1'') = Some \<lparr>Identifier = ''key1''\<rparr>"
    by (simp add: scenarioRequest_def)
  have ok: "keyUsable scenarioEnv ?sv (Identifier \<lparr>Identifier = ''key1''\<rparr>)"
    by (simp add: scenario_usable)
  have dec: "DecodeString (Digest (scenarioRequest ''key1'')) = Inr ''hello''"
    by (simp add: scenarioRequest_def decode_hello)
  have opts: "getSignerOpts (HashAlgo_String scenarioEnv (HashAlgorithm (scenarioRequest ''key1'')))
      = SHA256"
    by (simp add: scenarioEnv_def scenarioRequest_def exampleNames_def getSignerOpts_def)
  have sign: "Sign ?sv ''hello'' SHA256 ''key1'' = Returns [CHR 0xAA, CHR 0xBB]"
    by (simp add: scenarioService_def)
  show ?thesis
    using sign_once_and_encode [OF km ok dec] opts sign
    by simp
qed

text \<open>
  C10. \<^verbatim>\<open>PostSignBlob\<close> called with a nil request: the body panics on \<^verbatim>\<open>request.KeyMeta\<close>,
  \<^verbatim>\<open>recoverIfPanicked\<close> recovers that panic, then the deferred log statement panics on
  \<^verbatim>\<open>request.HashAlgorithm\<close> before it prints. The call ends in a panic, not in a result, and
  its trace holds no log record. Called with a request that is not nil it returns its two
  results and prints one record.
\<close>

theorem nil_request_panics_unlogged:
  "PostSignBlob cfg s None =
     (Panicked nil_dereference, [log_recovered ''PostSignBlob'' nil_dereference]) \<and>
   logRecords (snd (PostSignBlob cfg s None)) = [] \<and>
   (\<exists>r e. fst (PostSignBlob cfg s (Some rq)) = Returned r e) \<and>
   length (logRecords (snd (PostSignBlob cfg s (Some rq)))) = 1"
proof -
  have nil: "PostSignBlob cfg s None =
      (Panicked nil_dereference, [log_recovered ''PostSignBlob'' nil_dereference])"
    by (simp add: PostSignBlob_def body_eval call_eval)
  have returns: "\<exists>r e. fst (PostSignBlob cfg s (Some rq)) = Returned r e"
    by (simp add: PostSignBlob_def PostSignBlob_body_def Let_def runDeferred_def
          recoverIfPanicked_def
        split: option.split sum.split signer_result.split)
  have one: "length (logRecords (snd (PostSignBlob cfg s (Some rq)))) = 1"
    by (simp add: PostSignBlob_def PostSignBlob_body_def Let_def runDeferred_def
          recoverIfPanicked_def
        split: option.split sum.split signer_result.split)
  from nil returns one show ?thesis
    by simp
qed

text \<open>
  C6. When \<^verbatim>\<open>GetBlobSigningPublicKey\<close> returns an error, \<^verbatim>\<open>GetBlobSigningKey\<close> returns
  \<^verbatim>\<open>Internal\<close> with the fixed message \<^verbatim>\<open>Internal server error\<close>, and the one log record of the
  call holds the text of the signer's error; so two services whose signers fail with any
  two errors give the caller the same result. The same holds of \<^verbatim>\<open>PostSignBlob\<close> when \<^verbatim>\<open>Sign\<close>
  returns an error. Each method is stated on its own: nothing is asked of the other method
  of the signer.
\<close>

theorem signer_failure_opaque:
  "(keyUsable cfg sv (Identifier km) \<and> GetBlobSigningPublicKey sv (Identifier km) = Fails e \<longrightarrow>
      fst (GetBlobSigningKey cfg (Some sv) (Some km)) =
        Returned None (Some (status_Error Internal ''Internal server error'')) \<and>
      map log_err (logRecords (snd (GetBlobSigningKey cfg (Some sv) (Some km)))) = [Error e]) \<and>
   (keyUsable cfg sv (Identifier km) \<and> GetBlobSigningPublicKey sv (Identifier km) = Fails e \<and>
    keyUsable cfg sv' (Identifier km) \<and> GetBlobSigningPublicKey sv' (Identifier km) = Fails e' \<longrightarrow>
      fst (GetBlobSigningKey cfg (Some sv') (Some km)) =
        fst (GetBlobSigningKey cfg (Some sv) (Some km))) \<and>
   (KeyMeta rq = Some kn \<and> keyUsable cfg tv (Identifier kn) \<and>
    DecodeString (Digest rq) = Inr digest \<and>
    Sign tv digest (getSignerOpts (HashAlgo_String cfg (HashAlgorithm rq))) (Identifier kn)
      = Fails f \<longrightarrow>
      fst (PostSignBlob cfg (Some tv) (Some rq)) =
        Returned None (Some (status_Error Internal ''Internal server error'')) \<and>
      map log_err (logRecords (snd (PostSignBlob cfg (Some tv) (Some rq)))) = [Error f]) \<and>
   (KeyMeta rq = Some kn \<and> DecodeString (Digest rq) = Inr digest \<and>
    keyUsable cfg tv (Identifier kn) \<and>
    Sign tv digest (getSignerOpts (HashAlgo_String cfg (HashAlgorithm rq))) (Identifier kn)
      = Fails f \<and>
    keyUsable cfg tv' (Identifier kn) \<and>
    Sign tv' digest (getSignerOpts (HashAlgo_String cfg (HashAlgorithm rq))) (Identifier kn)
      = Fails f' \<longrightarrow>
      fst (PostSignBlob cfg (Some tv') (Some rq)) = fst (PostSignBlob cfg (Some tv) (Some rq)))"
proof -
  have get: "GetBlobSigningKey cfg (Some s) (Some km) =
      (Returned None (Some (status_Error Internal ''Internal server error'')),
       [call_GetBlobSigningPublicKey (Identifier km),
        log_Printf (logRecord cfg ''GetBlobSigningKey'' None None
          \<lparr>statusCode = 500, err = Some x\<rparr>)])"
    if "keyUsable cfg s (Identifier km)" "GetBlobSigningPublicKey s (Identifier km) = Fails x"
    for s x
    using that by (simp add: GetBlobSigningKey_def body_eval runDeferred_def
        recoverIfPanicked_def internalServerError_def)
  have post: "PostSignBlob cfg (Some s) (Some rq) =
      (Returned None (Some (status_Error Internal ''Internal server error'')),
       [call_Sign digest (getSignerOpts (HashAlgo_String cfg (HashAlgorithm rq))) (Identifier kn),
        log_Printf (logRecord cfg ''PostSignBlob'' (Some (Digest rq))
          (Some (HashAlgo_String cfg (HashAlgorithm rq))) \<lparr>statusCode = 500, err = Some x\<rparr>)])"
    if "KeyMeta rq = Some kn" "DecodeString (Digest rq) = Inr digest"
       "keyUsable cfg s (Identifier kn)"
       "Sign s digest (getSignerOpts (HashAlgo_String cfg (HashAlgorithm rq))) (Identifier kn)
          = Fails x"
    for s x
    using that by (simp add: PostSignBlob_def body_eval runDeferred_def
        recoverIfPanicked_def internalServerError_def)
  show ?thesis
    by (auto simp: get post logRecord_def)
qed

text \<open>
  In the first service of the witness only \<^verbatim>\<open>GetBlobSigningPublicKey\<close> fails, in the other
  two only \<^verbatim>\<open>Sign\<close>.
\<close>

theorem signer_failure_opaque_witness:
  "fst (GetBlobSigningKey scenarioEnv
          (Some ((scenarioService (Returns ''SIG''))
             \<lparr>GetBlobSigningPublicKey := (\<lambda>ident. Fails (errorString ''slot 3 locked''))\<rparr>))
          (Some \<lparr>Identifier = ''key1''\<rparr>)) =
     Returned None (Some (status_Error Internal ''Internal server error'')) \<and>
   map log_err (logRecords (snd (GetBlobSigningKey scenarioEnv
          (Some ((scenarioService (Returns ''SIG''))
             \<lparr>GetBlobSigningPublicKey := (\<lambda>ident. Fails (errorString ''slot 3 locked''))\<rparr>))
          (Some \<lparr>Identifier = ''key1''\<rparr>)))) = [''slot 3 locked''] \<and>
   fst (PostSignBlob scenarioEnv
          (Some ((scenarioService (Returns ''PUB''))
             \<lparr>Sign := (\<lambda>digest opts ident. Fails (errorString ''session closed''))\<rparr>))
          (Some (scenarioRequest ''key1''))) =
     fst (PostSignBlob scenarioEnv
          (Some ((scenarioService (Returns ''PUB''))
             \<lparr>Sign := (\<lambda>digest opts ident. Fails (errorString ''slot 3 locked''))\<rparr>))
          (Some (scenarioRequest ''key1''))) \<and>
   map log_err (logRecords (snd (PostSignBlob scenarioEnv
          (Some ((scenarioService (Returns ''PUB''))
             \<lparr>Sign := (\<lambda>digest opts ident. Fails (errorString ''slot 3 locked''))\<rparr>))
          (Some (scenarioRequest ''key1''))))) = [''slot 3 locked'']"
proof -
  let ?g = "(scenarioService (Returns ''SIG''))
              \<lparr>GetBlobSigningPublicKey := (\<lambda>ident. Fails (errorString ''slot 3 locked''))\<rparr>"
  let ?a = "(scenarioService (Returns ''PUB''))
              \<lparr>Sign := (\<lambda>digest opts ident. Fails (errorString ''slot 3 locked''))\<rparr>"
  let ?b = "(scenarioService (Returns ''PUB''))
              \<lparr>Sign := (\<lambda>digest opts ident. Fails (errorString ''session closed''))\<rparr>"
  let ?km = "\<lparr>Identifier = ''key1''\<rparr>"
  let ?rq = "scenarioRequest ''key1''"
  let ?opts = "getSignerOpts (HashAlgo_String scenarioEnv (HashAlgorithm ?rq))"
  have ug: "keyUsable scenarioEnv ?g (Identifier ?km)"
    and ua: "keyUsable scenarioEnv ?a (Identifier ?km)"
    and ub: "keyUsable scenarioEnv ?b (Identifier ?km)"
    by (simp_all add: scenario_eval)
  have km: "KeyMeta ?rq = Some ?km"
    by (simp add: scenarioRequest_def)
  have dec: "DecodeString (Digest ?rq) = Inr ''hello''"
    by (simp add: scenarioRequest_def decode_hello)
  have gg: "GetBlobSigningPublicKey ?g (Identifier ?km) = Fails (errorString ''slot 3 locked'')"
    and sa: "Sign ?a ''hello'' ?opts (Identifier ?km) = Fails (errorString ''slot 3 locked'')"
    and sb: "Sign ?b ''hello'' ?opts (Identifier ?km) = Fails (errorString ''session closed'')"
    by (simp_all add: scenarioService_def)
  note all = signer_failure_opaque [of scenarioEnv ?g ?km "errorString ''slot 3 locked''" ?g
      "errorString ''slot 3 locked''" ?rq ?km ?a "''hello''"
      "errorString ''slot 3 locked''" ?b "errorString ''session closed''"]
  from all ug gg have one:
    "fst (GetBlobSigningKey scenarioEnv (Some ?g) (Some ?km)) =
       Returned None (Some (status_Error Internal ''Internal server error'')) \<and>
     map log_err (logRecords (snd (GetBlobSigningKey scenarioEnv (Some ?g) (Some ?km))))
       = [Error (errorString ''slot 3 locked'')]"
    by blast
  from all km dec ua ub sa sb have two:
    "fst (PostSignBlob scenarioEnv (Some ?b) (Some ?rq)) =
       fst (PostSignBlob scenarioEnv (Some ?a) (Some ?rq))"
    by blast
  from all km dec ua sa have three:
    "map log_err (logRecords (snd (PostSignBlob scenarioEnv (Some ?a) (Some ?rq))))
       = [Error (errorString ''slot 3 locked'')]"
    by blast
  from one two three show ?thesis
    by simp
qed

text \<open>
  C2, as the code has it. A panic in the body of one of the three methods (for
  \<^verbatim>\<open>PostSignBlob\<close>, of a call with a request that is not nil) is recovered by the deferred
  \<^verbatim>\<open>recoverIfPanicked\<close>, which logs it; the call then returns to its caller the zero values
  of its results, a nil response and a nil error, not an \<^verbatim>\<open>Internal\<close> error.
\<close>

theorem panic_recovered_zero_results:
  "(snd (snd (GetBlobAvailableSigningKeys_body cfg s)) = Panicking v \<longrightarrow>
      fst (GetBlobAvailableSigningKeys cfg s) = Returned None None \<and>
      log_recovered ''GetBlobAvailableSigningKeys'' v \<in> set (snd (GetBlobAvailableSigningKeys cfg s))) \<and>
   (snd (snd (GetBlobSigningKey_body cfg s keyMeta)) = Panicking v \<longrightarrow>
      fst (GetBlobSigningKey cfg s keyMeta) = Returned None None \<and>
      log_recovered ''GetBlobSigningKey'' v \<in> set (snd (GetBlobSigningKey cfg s keyMeta))) \<and>
   (snd (snd (PostSignBlob_body cfg s (Some rq))) = Panicking v \<longrightarrow>
      fst (PostSignBlob cfg s (Some rq)) = Returned None None \<and>
      log_recovered ''PostSignBlob'' v \<in> set (snd (PostSignBlob cfg s (Some rq))))"
proof -
  have run: "fst (runDeferred mth logArgs b) = Returned None None \<and>
             log_recovered mth v \<in> set (snd (runDeferred mth logArgs b))"
    if "snd (snd b) = Panicking v" "logArgs (fst b) = Inr r"
    for mth r and logArgs :: "locals \<Rightarrow> panic_value + log_record" and b :: "'r body"
    using that by (cases b) (simp add: runDeferred_def recoverIfPanicked_def)
  show ?thesis
    by (simp add: GetBlobAvailableSigningKeys_def GetBlobSigningKey_def PostSignBlob_def run)
qed

theorem panic_recovered_zero_results_witness:
  "fst (GetBlobAvailableSigningKeys scenarioEnv None) = Returned None None \<and>
   fst (GetBlobSigningKey scenarioEnv (Some (scenarioService (Panics (signer_panic ''boom''))))
          (Some \<lparr>Identifier = ''key1''\<rparr>)) = Returned None None \<and>
   fst (PostSignBlob scenarioEnv (Some (scenarioService (Panics (signer_panic ''boom''))))
          (Some (scenarioRequest ''key1''))) = Returned None None \<and>
   log_recovered ''PostSignBlob'' (signer_panic ''boom'')
     \<in> set (snd (PostSignBlob scenarioEnv (Some (scenarioService (Panics (signer_panic ''boom''))))
          (Some (scenarioRequest ''key1''))))"
proof -
  let ?sv = "scenarioService (Panics (signer_panic ''boom''))"
  have a: "snd (snd (GetBlobAvailableSigningKeys_body scenarioEnv None)) = Panicking nil_dereference"
    by (simp add: body_eval)
  have b: "snd (snd (GetBlobSigningKey_body scenarioEnv (Some ?sv) (Some \<lparr>Identifier = ''key1''\<rparr>)))
      = Panicking (signer_panic ''boom'')"
    by (simp add: body_eval scenario_usable) (simp add: scenarioService_def)
  have c: "snd (snd (PostSignBlob_body scenarioEnv (Some ?sv) (Some (scenarioRequest ''key1''))))
      = Panicking (signer_panic ''boom'')"
    by (simp add: body_eval scenario_usable scenarioRequest_def decode_hello)
       (simp add: scenarioService_def)
  show ?thesis
    using panic_recovered_zero_results [of scenarioEnv None nil_dereference None
            "scenarioRequest ''key1''"]
          panic_recovered_zero_results [of scenarioEnv "Some ?sv" "signer_panic ''boom''"
            "Some \<lparr>Identifier = ''key1''\<rparr>" "scenarioRequest ''key1''"]
          a b c
    by simp
qed

text \<open>
  C2 as stated fails where the signer panics in \<^verbatim>\<open>GetBlobSigningKey\<close>: the caller gets a nil
  response and a nil error, not the \<^verbatim>\<open>Internal\<close> error.
\<close>

theorem panic_not_internal_error_counterexample:
  "snd (snd (GetBlobSigningKey_body scenarioEnv
          (Some (scenarioService (Panics (signer_panic ''boom''))))
          (Some \<lparr>Identifier = ''key1''\<rparr>))) = Panicking (signer_panic ''boom'') \<and>
   fst (GetBlobSigningKey scenarioEnv (Some (scenarioService (Panics (signer_panic ''boom''))))
          (Some \<lparr>Identifier = ''key1''\<rparr>)) = Returned None None \<and>
   fst (GetBlobSigningKey scenarioEnv (Some (scenarioService (Panics (signer_panic ''boom''))))
          (Some \<lparr>Identifier = ''key1''\<rparr>))
     \<noteq> Returned None (Some (status_Error Internal ''Internal server error''))"
  by (simp add: GetBlobSigningKey_def body_eval scenario_usable call_eval)
     (simp add: scenarioService_def)

text \<open>
  C4, as the code has it. A nil \<^verbatim>\<open>keyMeta\<close> is refused with \<^verbatim>\<open>InvalidArgument\<close> and the
  message \<^verbatim>\<open>Bad request: keyMeta is empty for <endpoint>\<close> (\<^verbatim>\<open>request.keyMeta is empty\<close> in
  \<^verbatim>\<open>PostSignBlob\<close>, for a request that is not nil), a message other than the one of the
  authorization check, and the signer is not called. An empty identifier has no check of
  its own: it goes through the authorization check as any identifier does, refused with
  \<^verbatim>\<open>cannot use key\<close> when the table does not allow it and passed on to the signer when it does.
\<close>

theorem nil_keyMeta_refused:
  "fst (GetBlobSigningKey cfg s None) =
     Returned None (Some (status_Error InvalidArgument
       (''Bad request: keyMeta is empty for '' @ fmt_q cfg (BlobEndpoint cfg)))) \<and>
   signerCalls (snd (GetBlobSigningKey cfg s None)) = [] \<and>
   (KeyMeta rq = None \<longrightarrow>
      fst (PostSignBlob cfg s (Some rq)) =
        Returned None (Some (status_Error InvalidArgument
          (''Bad request: request.keyMeta is empty for '' @ fmt_q cfg (BlobEndpoint cfg)))) \<and>
      signerCalls (snd (PostSignBlob cfg s (Some rq))) = []) \<and>
   ''Bad request: keyMeta is empty for '' @ x \<noteq> ''Bad request: cannot use key '' @ y \<and>
   ''Bad request: request.keyMeta is empty for '' @ x \<noteq> ''Bad request: cannot use key '' @ y \<and>
   (Identifier km = '''' \<and> \<not> keyUsable cfg sv '''' \<longrightarrow>
      fst (GetBlobSigningKey cfg (Some sv) (Some km)) =
        Returned None (Some (status_Error InvalidArgument
          (''Bad request: cannot use key '' @ fmt_q cfg '''' @ '' for ''
             @ fmt_q cfg (BlobEndpoint cfg))))) \<and>
   (Identifier km = '''' \<and> keyUsable cfg sv '''' \<longrightarrow>
      signerCalls (snd (GetBlobSigningKey cfg (Some sv) (Some km))) =
        [call_GetBlobSigningPublicKey ''''])"
proof -
  have get: "GetBlobSigningKey_body cfg s None =
      (\<lparr>statusCode = 400,
        err = Some (errorString (''keyMeta is empty for '' @ fmt_q cfg (BlobEndpoint cfg)))\<rparr>, [],
       Return None (Some (badRequest
         (errorString (''keyMeta is empty for '' @ fmt_q cfg (BlobEndpoint cfg))))))"
    by (simp add: body_eval)
  have post: "PostSignBlob_body cfg s (Some rq) =
      (\<lparr>statusCode = 400,
        err = Some (errorString (''request.keyMeta is empty for '' @ fmt_q cfg (BlobEndpoint cfg)))\<rparr>,
       [],
       Return None (Some (badRequest
         (errorString (''request.keyMeta is empty for '' @ fmt_q cfg (BlobEndpoint cfg))))))"
    if "KeyMeta rq = None"
    using that by (simp add: body_eval)
  have refused: "fst (GetBlobSigningKey cfg (Some sv) (Some km)) =
      Returned None (Some (status_Error InvalidArgument
        (''Bad request: cannot use key '' @ fmt_q cfg '''' @ '' for ''
           @ fmt_q cfg (BlobEndpoint cfg))))"
    if "Identifier km = ''''" "\<not> keyUsable cfg sv ''''"
    using that by (simp add: GetBlobSigningKey_def body_eval call_eval)
  have passed: "signerCalls (snd (GetBlobSigningKey cfg (Some sv) (Some km))) =
      [call_GetBlobSigningPublicKey '''']"
    if "Identifier km = ''''" "keyUsable cfg sv ''''"
    using that by (simp add: GetBlobSigningKey_def body_eval call_eval split: signer_result.split)
  show ?thesis
    using refused passed
    by (simp add: GetBlobSigningKey_def PostSignBlob_def get post call_eval)
qed

theorem nil_keyMeta_refused_witness:
  "fst (PostSignBlob scenarioEnv (Some (scenarioService (Returns ''SIG'')))
          (Some ((scenarioRequest ''key1'')\<lparr>KeyMeta := None\<rparr>))) =
     Returned None (Some (status_Error InvalidArgument
       (''Bad request: request.keyMeta is empty for '' @ quoteASCII ''blob''))) \<and>
   fst (GetBlobSigningKey scenarioEnv (Some (scenarioService (Returns ''PUB'')))
          (Some \<lparr>Identifier = ''''\<rparr>)) =
     Returned None (Some (status_Error InvalidArgument
       (''Bad request: cannot use key '' @ quoteASCII '''' @ '' for '' @ quoteASCII ''blob''))) \<and>
   signerCalls (snd (GetBlobSigningKey scenarioEnv
          (Some ((scenarioService (Returns ''PUB''))\<lparr>KeyUsages := [''blob'' \<mapsto> [('''', True)]]\<rparr>))
          (Some \<lparr>Identifier = ''''\<rparr>))) = [call_GetBlobSigningPublicKey '''']"
proof -
  let ?rq = "(scenarioRequest ''key1'')\<lparr>KeyMeta := None\<rparr>"
  let ?sv = "scenarioService (Returns ''PUB'')"
  let ?sv' = "(scenarioService (Returns ''PUB''))\<lparr>KeyUsages := [''blob'' \<mapsto> [('''', True)]]\<rparr>"
  have a: "KeyMeta ?rq = None"
    by simp
  have b: "Identifier \<lparr>Identifier = ''''\<rparr> = '''' \<and> \<not> keyUsable scenarioEnv ?sv ''''"
    by (simp add: scenario_usable)
  have c: "Identifier \<lparr>Identifier = ''''\<rparr> = '''' \<and> keyUsable scenarioEnv ?sv' ''''"
    by (simp add: scenario_eval)
  show ?thesis
    using nil_keyMeta_refused [of scenarioEnv "Some (scenarioService (Returns ''SIG''))" ?rq
            "''''" "''''" "\<lparr>Identifier = ''''\<rparr>" ?sv]
          nil_keyMeta_refused [of scenarioEnv "Some ?sv'" ?rq
            "''''" "''''" "\<lparr>Identifier = ''''\<rparr>" ?sv']
          a b c
    by (simp add: scenarioEnv_def)
qed

text \<open>
  C4 as stated fails for the empty identifier: with the table of the scenarios it is refused
  with the message of the authorization check, not with the one for a missing \<^verbatim>\<open>keyMeta\<close>; with
  a table that holds the empty identifier the call succeeds.
\<close>

theorem empty_identifier_counterexample:
  "fst (GetBlobSigningKey scenarioEnv (Some (scenarioService (Returns ''PUB'')))
          (Some \<lparr>Identifier = ''''\<rparr>)) =
     Returned None (Some (status_Error InvalidArgument
       (''Bad request: cannot use key '' @ quoteASCII '''' @ '' for '' @ quoteASCII ''blob''))) \<and>
   fst (GetBlobSigningKey scenarioEnv (Some (scenarioService (Returns ''PUB'')))
          (Some \<lparr>Identifier = ''''\<rparr>)) \<noteq>
     Returned None (Some (status_Error InvalidArgument
       (''Bad request: keyMeta is empty for '' @ quoteASCII ''blob''))) \<and>
   fst (GetBlobSigningKey scenarioEnv
          (Some ((scenarioService (Returns ''PUB''))\<lparr>KeyUsages := [''blob'' \<mapsto> [('''', True)]]\<rparr>))
          (Some \<lparr>Identifier = ''''\<rparr>)) = Returned (Some \<lparr>Key = ''PUB''\<rparr>) None"
  by (simp add: GetBlobSigningKey_def body_eval call_eval scenario_eval)

text \<open>
  C8. For a service that is not nil \<^verbatim>\<open>GetBlobAvailableSigningKeys\<close> returns no error, and the
  identifiers it returns are, as a set, the keys of the map
  \<^verbatim>\<open>s.KeyUsages[config.BlobEndpoint]\<close>, none when the map is missing. The map stands for the
  set of identifiers of the endpoint: every key is stored with \<^verbatim>\<open>true\<close>. For such a table the
  identifiers returned are exactly the ones the authorization check allows; for any table
  the allowed ones are among them.
\<close>

theorem available_keys_are_map_keys:
  "\<exists>keys. fst (GetBlobAvailableSigningKeys cfg (Some sv)) = Returned (Some \<lparr>Keys = keys\<rparr>) None \<and>
     Identifier ` set keys = fst ` set (usagesIndex (KeyUsages sv) (BlobEndpoint cfg)) \<and>
     (KeyUsages sv (BlobEndpoint cfg) = None \<longrightarrow> keys = []) \<and>
     {ident. keyUsable cfg sv ident} \<subseteq> Identifier ` set keys \<and>
     ((\<forall>entry \<in> set (usagesIndex (KeyUsages sv) (BlobEndpoint cfg)). snd entry) \<longrightarrow>
        Identifier ` set keys = {ident. keyUsable cfg sv ident})"
proof -
  let ?m = "usagesIndex (KeyUsages sv) (BlobEndpoint cfg)"
  let ?keys = "map (\<lambda>i. \<lparr>Identifier = i\<rparr>) (mapRange ?m)"
  have res: "fst (GetBlobAvailableSigningKeys cfg (Some sv)) = Returned (Some \<lparr>Keys = ?keys\<rparr>) None"
    by (simp add: GetBlobAvailableSigningKeys_def body_eval call_eval appendKeys_map)
  have ids: "Identifier ` set ?keys = fst ` set ?m"
    by (simp add: mapRange_def image_image)
  have none: "?keys = []" if "KeyUsages sv (BlobEndpoint cfg) = None"
    using that by (simp add: usagesIndex_def mapRange_def)
  have sub: "{ident. keyUsable cfg sv ident} \<subseteq> fst ` set ?m"
  proof
    fix ident assume "ident \<in> {ident. keyUsable cfg sv ident}"
    then have "map_of ?m ident = Some True"
      by (simp add: keyUsable_def mapIndex_def split: option.splits)
    then have "(ident, True) \<in> set ?m"
      by (rule map_of_SomeD)
    then show "ident \<in> fst ` set ?m"
      by force
  qed
  have sup: "fst ` set ?m \<subseteq> {ident. keyUsable cfg sv ident}" if all: "\<forall>entry \<in> set ?m. snd entry"
  proof
    fix ident assume "ident \<in> fst ` set ?m"
    then obtain b where "map_of ?m ident = Some b"
      by (metis domD dom_map_of_conv_image_fst)
    moreover from this have "(ident, b) \<in> set ?m"
      by (rule map_of_SomeD)
    with all have b by force
    ultimately show "ident \<in> {ident. keyUsable cfg sv ident}"
      by (simp add: keyUsable_def mapIndex_def)
  qed
  from res ids none sub sup show ?thesis
    by (metis subset_antisym)
qed

theorem available_keys_are_map_keys_witness:
  "fst (GetBlobAvailableSigningKeys scenarioEnv (Some (scenarioService (Returns ''PUB'')))) =
     Returned (Some \<lparr>Keys = [\<lparr>Identifier = ''key1''\<rparr>]\<rparr>) None \<and>
   usagesIndex (KeyUsages (scenarioService (Returns ''PUB''))) (BlobEndpoint scenarioEnv) =
     [(''key1'', True)] \<and>
   {ident. keyUsable scenarioEnv (scenarioService (Returns ''PUB'')) ident} = {''key1''}"
proof -
  let ?sv = "scenarioService (Returns ''PUB'')"
  have m: "usagesIndex (KeyUsages ?sv) (BlobEndpoint scenarioEnv) = [(''key1'', True)]"
    by (simp add: scenario_eval)
  from available_keys_are_map_keys [of scenarioEnv ?sv] obtain keys where
    res: "fst (GetBlobAvailableSigningKeys scenarioEnv (Some ?sv)) = Returned (Some \<lparr>Keys = keys\<rparr>) None"
    and ids: "Identifier ` set keys = {ident. keyUsable scenarioEnv ?sv ident}"
    by (auto simp: m)
  have "fst (GetBlobAvailableSigningKeys scenarioEnv (Some ?sv)) =
     Returned (Some \<lparr>Keys = [\<lparr>Identifier = ''key1''\<rparr>]\<rparr>) None"
    by (simp add: GetBlobAvailableSigningKeys_def body_eval call_eval m mapRange_def)
  with res ids show ?thesis
    by (auto simp: m)
qed

text \<open>
  C7, as the code has it. Every call of \<^verbatim>\<open>GetBlobAvailableSigningKeys\<close> and of
  \<^verbatim>\<open>GetBlobSigningKey\<close>, and every call of \<^verbatim>\<open>PostSignBlob\<close> with a request that is not nil,
  prints exactly one log record, whether the body returned a response, returned an error or
  panicked and was recovered. The record holds the method name, the status (the success
  status when no error is returned, \<^verbatim>\<open>400\<close> for \<^verbatim>\<open>InvalidArgument\<close>, \<^verbatim>\<open>500\<close> for \<^verbatim>\<open>Internal\<close>),
  the elapsed time and the error text: \<^verbatim>\<open><nil>\<close> when no error is returned, the text behind
  \<^verbatim>\<open>Bad request: \<close> for \<^verbatim>\<open>InvalidArgument\<close>, and for \<^verbatim>\<open>Internal\<close>, which is returned only when the
  signer failed, the text of the signer's error. For \<^verbatim>\<open>PostSignBlob\<close> it also holds the digest
  text and the name of the hash algorithm of the request.
\<close>

theorem one_log_record_per_call:
  "(\<exists>r. logRecords (snd (GetBlobAvailableSigningKeys cfg s)) = [r] \<and>
        log_m r = ''GetBlobAvailableSigningKeys'' \<and> log_digest r = None \<and> log_hash r = None \<and>
        log_et r = timeElapsedSince cfg (time_Now cfg) \<and>
        recordShows http_StatusOK (fst (GetBlobAvailableSigningKeys cfg s)) r \<and>
        (\<forall>x msg. fst (GetBlobAvailableSigningKeys cfg s)
                    \<noteq> Returned x (Some (status_Error Internal msg)))) \<and>
   (\<exists>r. logRecords (snd (GetBlobSigningKey cfg s keyMeta)) = [r] \<and>
        log_m r = ''GetBlobSigningKey'' \<and> log_digest r = None \<and> log_hash r = None \<and>
        log_et r = timeElapsedSince cfg (time_Now cfg) \<and>
        recordShows http_StatusOK (fst (GetBlobSigningKey cfg s keyMeta)) r \<and>
        (\<forall>x msg. fst (GetBlobSigningKey cfg s keyMeta)
                    = Returned x (Some (status_Error Internal msg)) \<longrightarrow>
           (\<exists>sv km e. s = Some sv \<and> keyMeta = Some km \<and>
              GetBlobSigningPublicKey sv (Identifier km) = Fails e \<and> log_err r = Error e))) \<and>
   (\<exists>r. logRecords (snd (PostSignBlob cfg s (Some rq))) = [r] \<and>
        log_m r = ''PostSignBlob'' \<and> log_digest r = Some (Digest rq) \<and>
        log_hash r = Some (HashAlgo_String cfg (HashAlgorithm rq)) \<and>
        log_et r = timeElapsedSince cfg (time_Now cfg) \<and>
        recordShows http_StatusCreated (fst (PostSignBlob cfg s (Some rq))) r \<and>
        (\<forall>x msg. fst (PostSignBlob cfg s (Some rq))
                    = Returned x (Some (status_Error Internal msg)) \<longrightarrow>
           (\<exists>sv km digest e. s = Some sv \<and> KeyMeta rq = Some km \<and>
              DecodeString (Digest rq) = Inr digest \<and>
              Sign sv digest (getSignerOpts (HashAlgo_String cfg (HashAlgorithm rq)))
                (Identifier km) = Fails e \<and>
              log_err r = Error e)))"
proof -
  have list: "\<exists>r. logRecords (snd (GetBlobAvailableSigningKeys cfg s)) = [r] \<and>
        log_m r = ''GetBlobAvailableSigningKeys'' \<and> log_digest r = None \<and> log_hash r = None \<and>
        log_et r = timeElapsedSince cfg (time_Now cfg) \<and>
        recordShows http_StatusOK (fst (GetBlobAvailableSigningKeys cfg s)) r \<and>
        (\<forall>x msg. fst (GetBlobAvailableSigningKeys cfg s)
                    \<noteq> Returned x (Some (status_Error Internal msg)))"
    by (cases s)
       (simp_all add: GetBlobAvailableSigningKeys_def GetBlobAvailableSigningKeys_body_def
          runDeferred_def recoverIfPanicked_def logRecord_def)
  have get: "\<exists>r. logRecords (snd (GetBlobSigningKey cfg s keyMeta)) = [r] \<and>
        log_m r = ''GetBlobSigningKey'' \<and> log_digest r = None \<and> log_hash r = None \<and>
        log_et r = timeElapsedSince cfg (time_Now cfg) \<and>
        recordShows http_StatusOK (fst (GetBlobSigningKey cfg s keyMeta)) r \<and>
        (\<forall>x msg. fst (GetBlobSigningKey cfg s keyMeta)
                    = Returned x (Some (status_Error Internal msg)) \<longrightarrow>
           (\<exists>sv km e. s = Some sv \<and> keyMeta = Some km \<and>
              GetBlobSigningPublicKey sv (Identifier km) = Fails e \<and> log_err r = Error e))"
    by (simp add: GetBlobSigningKey_def GetBlobSigningKey_body_def Let_def
          runDeferred_def recoverIfPanicked_def logRecord_def badRequest_def
          internalServerError_def
        split: option.split signer_result.split)
  have post: "\<exists>r. logRecords (snd (PostSignBlob cfg s (Some rq))) = [r] \<and>
        log_m r = ''PostSignBlob'' \<and> log_digest r = Some (Digest rq) \<and>
        log_hash r = Some (HashAlgo_String cfg (HashAlgorithm rq)) \<and>
        log_et r = timeElapsedSince cfg (time_Now cfg) \<and>
        recordShows http_StatusCreated (fst (PostSignBlob cfg s (Some rq))) r \<and>
        (\<forall>x msg. fst (PostSignBlob cfg s (Some rq))
                    = Returned x (Some (status_Error Internal msg)) \<longrightarrow>
           (\<exists>sv km digest e. s = Some sv \<and> KeyMeta rq = Some km \<and>
              DecodeString (Digest rq) = Inr digest \<and>
              Sign sv digest (getSignerOpts (HashAlgo_String cfg (HashAlgorithm rq)))
                (Identifier km) = Fails e \<and>
              log_err r = Error e))"
    by (simp add: PostSignBlob_def PostSignBlob_body_def Let_def
          runDeferred_def recoverIfPanicked_def logRecord_def badRequest_def
          internalServerError_def
        split: option.split sum.split signer_result.split)
  from list get post show ?thesis
    by blast
qed

theorem one_log_record_per_call_witness:
  "fst (PostSignBlob scenarioEnv
          (Some (scenarioService (Fails (errorString ''slot 3 locked''))))
          (Some (scenarioRequest ''key1''))) =
     Returned None (Some (status_Error Internal ''Internal server error'')) \<and>
   map log_err (logRecords (snd (PostSignBlob scenarioEnv
          (Some (scenarioService (Fails (errorString ''slot 3 locked''))))
          (Some (scenarioRequest ''key1''))))) = [''slot 3 locked''] \<and>
   map log_err (logRecords (snd (GetBlobSigningKey scenarioEnv
          (Some (scenarioService (Fails (errorString ''slot 3 locked''))))
          (Some \<lparr>Identifier = ''key1''\<rparr>)))) = [''slot 3 locked'']"
proof -
  let ?sv = "scenarioService (Fails (errorString ''slot 3 locked''))"
  let ?rq = "scenarioRequest ''key1''"
  let ?km = "\<lparr>Identifier = ''key1''\<rparr>"
  have fails: "Sign ?sv d opts ident = Fails e \<longleftrightarrow> e = errorString ''slot 3 locked''"
    "GetBlobSigningPublicKey ?sv ident = Fails e \<longleftrightarrow> e = errorString ''slot 3 locked''"
    for d opts ident e
    by (auto simp: scenarioService_def)
  have post: "fst (PostSignBlob scenarioEnv (Some ?sv) (Some ?rq)) =
      Returned None (Some (status_Error Internal ''Internal server error''))"
    by (simp add: PostSignBlob_def body_eval call_eval scenario_usable scenarioRequest_def
        decode_hello)
       (simp add: scenarioService_def internalServerError_def)
  have get: "fst (GetBlobSigningKey scenarioEnv (Some ?sv) (Some ?km)) =
      Returned None (Some (status_Error Internal ''Internal server error''))"
    by (simp add: GetBlobSigningKey_def body_eval call_eval scenario_usable)
       (simp add: scenarioService_def internalServerError_def)
  note all = one_log_record_per_call [of scenarioEnv "Some ?sv" "Some ?km" ?rq]
  from all obtain r where r: "logRecords (snd (PostSignBlob scenarioEnv (Some ?sv) (Some ?rq))) = [r]"
    and "\<forall>x msg. fst (PostSignBlob scenarioEnv (Some ?sv) (Some ?rq))
                    = Returned x (Some (status_Error Internal msg)) \<longrightarrow>
           (\<exists>sv km digest e. Some ?sv = Some sv \<and> KeyMeta ?rq = Some km \<and>
              DecodeString (Digest ?rq) = Inr digest \<and>
              Sign sv digest (getSignerOpts (HashAlgo_String scenarioEnv (HashAlgorithm ?rq)))
                (Identifier km) = Fails e \<and>
              log_err r = Error e)"
    by blast
  with post have "log_err r = ''slot 3 locked''"
    by (auto simp: fails)
  with r have one: "map log_err (logRecords (snd (PostSignBlob scenarioEnv (Some ?sv) (Some ?rq))))
      = [''slot 3 locked'']"
    by simp
  from all obtain q where q: "logRecords (snd (GetBlobSigningKey scenarioEnv (Some ?sv) (Some ?km))) = [q]"
    and "\<forall>x msg. fst (GetBlobSigningKey scenarioEnv (Some ?sv) (Some ?km))
                    = Returned x (Some (status_Error Internal msg)) \<longrightarrow>
           (\<exists>sv km e. Some ?sv = Some sv \<and> Some ?km = Some km \<and>
              GetBlobSigningPublicKey sv (Identifier km) = Fails e \<and> log_err q = Error e)"
    by blast
  with get have "log_err q = ''slot 3 locked''"
    by (auto simp: fails)
  with q have two: "map log_err (logRecords (snd (GetBlobSigningKey scenarioEnv (Some ?sv) (Some ?km))))
      = [''slot 3 locked'']"
    by simp
  from post one two show ?thesis
    by simp
qed

text \<open>
  C7 as stated fails for \<^verbatim>\<open>PostSignBlob\<close> with a nil request, which ends in a panic and prints
  no record; and the error text of a call without error is \<^verbatim>\<open><nil>\<close>, not the empty text.
\<close>

theorem nil_request_no_record_counterexample:
  "logRecords (snd (PostSignBlob scenarioEnv (Some (scenarioService (Returns ''SIG''))) None)) = [] \<and>
   fst (PostSignBlob scenarioEnv (Some (scenarioService (Returns ''SIG''))) None)
     = Panicked nil_dereference \<and>
   map log_err (logRecords (snd (GetBlobAvailableSigningKeys scenarioEnv
       (Some (scenarioService (Returns ''SIG'')))))) = [''<nil>'']"
  by (simp add: PostSignBlob_def GetBlobAvailableSigningKeys_def body_eval call_eval)

end
